theory Spec2Isabelle
  imports Main
begin

section \<open>The composer's message transformer (src/composer/transformer.ts)\<close>

text \<open>
  \<^verbatim>\<open>transformer.ts\<close> turns the message list of the agent graph's state (LangChain
  messages) into the composer's own messages. The embedding follows the file: the callback
  given to \<^verbatim>\<open>flatMap\<close> is \<open>mapMessage\<close>, the function around it is \<open>mapMessages\<close>,
  and \<open>transformState\<close> puts the result beside the session's metadata.

  A JavaScript \<^verbatim>\<open>TypeError\<close> (calling a method a string does not have, reading a property
  of \<^verbatim>\<open>undefined\<close>) is the value \<open>Inl TypeError\<close>; a property that may be
  \<^verbatim>\<open>undefined\<close> at run time is an \<open>option\<close>.
\<close>

subsection \<open>JavaScript values\<close>

text \<open>
  Free-form values (\<^verbatim>\<open>additional_kwargs\<close>, the arguments of a tool call). The transformer
  passes them on unread, but for the truthiness of \<^verbatim>\<open>additional_kwargs.temp\<close>. Numbers
  are integers here: only their being zero or not is ever looked at.
\<close>

datatype jsvalue =
    JUndefined
  | JNull
  | JBool bool
  | JNum int
  | JStr string
  | JArr "jsvalue list"
  | JObj "(string \<times> jsvalue) list"

type_synonym jsrecord = "(string \<times> jsvalue) list"

text \<open>What \<^verbatim>\<open>!v\<close> negates.\<close>

fun truthy :: "jsvalue \<Rightarrow> bool" where
  "truthy JUndefined = False"
| "truthy JNull = False"
| "truthy (JBool b) = b"
| "truthy (JNum n) = (n \<noteq> 0)"
| "truthy (JStr s) = (s \<noteq> [])"
| "truthy (JArr _) = True"
| "truthy (JObj _) = True"

text \<open>Reading a property of an object: a missing one is \<^verbatim>\<open>undefined\<close>.\<close>

definition get_prop :: "jsrecord \<Rightarrow> string \<Rightarrow> jsvalue" where
  "get_prop obj k = (case map_of obj k of None \<Rightarrow> JUndefined | Some v \<Rightarrow> v)"

subsection \<open>LangChain messages\<close>

text \<open>
  The \<^verbatim>\<open>image_url\<close> property of a \<^verbatim>\<open>MessageContentImageUrl\<close> is either the URL itself, a
  string, or an object with a \<^verbatim>\<open>url\<close> property. The transformer reads
  \<^verbatim>\<open>imageMsg.image_url.url\<close> (under a \<^verbatim>\<open>@ts-expect-error\<close>), which on a string is
  \<^verbatim>\<open>undefined\<close>.
\<close>

datatype image_url = UrlString string | UrlObject string

fun image_url_url :: "image_url \<Rightarrow> string option" where
  "image_url_url (UrlString s) = None"
| "image_url_url (UrlObject u) = Some u"

text \<open>
  A part of a complex content: \<^verbatim>\<open>{type: "text", text}\<close>, \<^verbatim>\<open>{type: "image_url", image_url}\<close>,
  or a part of any other type (\<^verbatim>\<open>tool_use\<close>, \<^verbatim>\<open>thinking\<close>, \<^verbatim>\<open>file\<close>, ...): its type and
  its \<^verbatim>\<open>text\<close> property, a string, when it has one.
\<close>

datatype content_part =
    TextPart string
  | ImageUrlPart image_url
  | OtherPart string "string option"

text \<open>
  \<^verbatim>\<open>c.type === "image_url"\<close>, \<^verbatim>\<open>c.type === "text"\<close>, and the property \<^verbatim>\<open>c.text\<close>, which
  the transformer reads of the last part of a human message whatever its type (the cast to
  \<^verbatim>\<open>MessageContentText[]\<close> is gone at run time): an image part has none.
\<close>

fun is_image_url :: "content_part \<Rightarrow> bool" where
  "is_image_url (ImageUrlPart _) = True"
| "is_image_url _ = False"

fun is_text :: "content_part \<Rightarrow> bool" where
  "is_text (TextPart _) = True"
| "is_text _ = False"

fun part_text :: "content_part \<Rightarrow> string option" where
  "part_text (TextPart t) = Some t"
| "part_text (ImageUrlPart iu) = None"
| "part_text (OtherPart ty t) = t"

text \<open>\<^verbatim>\<open>MessageContent = string | MessageContentComplex[]\<close>.\<close>

datatype message_content = StringContent string | ArrayContent "content_part list"

record tool_call =
  tc_name :: string
  tc_id :: "string option"
  tc_args :: jsrecord

text \<open>The fields every \<^verbatim>\<open>BaseMessage\<close> has, of which the transformer reads these three.\<close>

record message_fields =
  msg_id :: "string option"
  content :: message_content
  additional_kwargs :: jsrecord

text \<open>
  The classes the transformer tells apart with \<^verbatim>\<open>instanceof\<close>. An \<open>AIMessageChunk\<close> has
  \<^verbatim>\<open>tool_calls\<close> (possibly \<^verbatim>\<open>undefined\<close>), a LangChain \<^verbatim>\<open>ToolMessage\<close> has \<^verbatim>\<open>name\<close>
  (possibly \<^verbatim>\<open>undefined\<close>) and \<^verbatim>\<open>tool_call_id\<close>. \<open>OtherMessage\<close> is a message of any
  other class (\<^verbatim>\<open>SystemMessage\<close>, a plain \<^verbatim>\<open>AIMessage\<close>, ...).
\<close>

datatype base_message =
    HumanMessage message_fields
  | AIMessageChunk message_fields "tool_call list option"
  | LangChainToolMessage message_fields "string option" string
  | OtherMessage message_fields

subsection \<open>Composer messages\<close>

text \<open>
  Modelled from the spec: the classes \<^verbatim>\<open>UserMessage\<close>, \<^verbatim>\<open>AssistantMessage\<close> and
  \<^verbatim>\<open>ToolMessage\<close> of \<^verbatim>\<open>@shared/types/Composer\<close> are not among the sources; the spec's data
  model gives their fields (id, text, optional image; id, text; id, toolName, toolCallId,
  arguments, phase, metadata), and the constructor calls of the transformer their order. A
  field holds what the transformer passes, so a value that can be \<^verbatim>\<open>undefined\<close> there is an
  \<open>option\<close>. The fourth argument of \<^verbatim>\<open>ToolMessage\<close> is the arguments of a tool call at
  phase start and the content of the tool's message at phase end.
\<close>

record image =
  data :: "string option"
  ext :: string

datatype phase = Start | End

datatype tool_payload = Args jsrecord | Result message_content

datatype composer_message =
    UserMessage "string option" "string option" "image option"
  | AssistantMessage "string option" string
  | ToolMessage "string option" "string option" "string option" tool_payload phase jsrecord

datatype error = TypeError

subsection \<open>mapMessages\<close>

text \<open>
  The loop \<^verbatim>\<open>for (const content of messageContent) if (content.type === "text")
  results.push(new AssistantMessage(message.id!, content.text))\<close>, on the array \<open>results\<close>.
\<close>

fun push_text_parts ::
  "string option \<Rightarrow> content_part list \<Rightarrow> composer_message list \<Rightarrow> composer_message list" where
  "push_text_parts mid [] results = results"
| "push_text_parts mid (TextPart t # cs) results =
     push_text_parts mid cs (results @ [AssistantMessage mid t])"
| "push_text_parts mid (c # cs) results = push_text_parts mid cs results"

text \<open>
  The loop \<^verbatim>\<open>for (const toolCall of message.tool_calls) results.push(new ToolMessage(message.id!,
  toolCall.name, toolCall.id!, toolCall.args, "start", message.additional_kwargs))\<close>.
\<close>

fun push_tool_calls ::
  "string option \<Rightarrow> jsrecord \<Rightarrow> tool_call list \<Rightarrow> composer_message list \<Rightarrow> composer_message list" where
  "push_tool_calls mid kw [] results = results"
| "push_tool_calls mid kw (toolCall # tcs) results =
     push_tool_calls mid kw tcs
       (results @ [ToolMessage mid (Some (tc_name toolCall)) (tc_id toolCall)
                     (Args (tc_args toolCall)) Start kw])"

text \<open>
  The callback of \<^verbatim>\<open>flatMap\<close>. For a \<open>HumanMessage\<close> that is not \<^verbatim>\<open>temp\<close>: the content is
  taken for an array, so \<^verbatim>\<open>.find\<close> on a string content is a TypeError, and so is
  \<^verbatim>\<open>lastContent.text\<close> when the array is empty (\<^verbatim>\<open>messageContent[-1]\<close> is
  \<^verbatim>\<open>undefined\<close>). A \<open>HumanMessage\<close> that is \<^verbatim>\<open>temp\<close> is of neither other class and
  reaches the final \<^verbatim>\<open>return []\<close>.
\<close>

fun mapMessage :: "base_message \<Rightarrow> error + composer_message list" where
  "mapMessage (HumanMessage message) =
     (if \<not> truthy (get_prop (additional_kwargs message) ''temp'') then
        (case content message of
           StringContent s \<Rightarrow> Inl TypeError
         | ArrayContent messageContent \<Rightarrow>
             (let imageMsg = find is_image_url messageContent in
              if length messageContent = 0 then Inl TypeError
              else
                (let lastContent = messageContent ! (length messageContent - 1) in
                 Inr [UserMessage (msg_id message) (part_text lastContent)
                        (case imageMsg of
                           Some (ImageUrlPart iu) \<Rightarrow>
                             Some \<lparr>data = image_url_url iu, ext = ''image/jpeg''\<rparr>
                         | _ \<Rightarrow> None)])))
      else Inr [])"
| "mapMessage (AIMessageChunk message tool_calls) =
     (let results =
            (case content message of
               StringContent s \<Rightarrow> [AssistantMessage (msg_id message) s]
             | ArrayContent messageContent \<Rightarrow>
                 push_text_parts (msg_id message) messageContent []);
          results =
            (case tool_calls of
               None \<Rightarrow> results
             | Some tcs \<Rightarrow>
                 if length tcs \<noteq> 0
                 then push_tool_calls (msg_id message) (additional_kwargs message) tcs results
                 else results)
      in Inr results)"
| "mapMessage (LangChainToolMessage message name tool_call_id) =
     Inr [ToolMessage (msg_id message) name (Some tool_call_id)
            (Result (content message)) End (additional_kwargs message)]"
| "mapMessage (OtherMessage message) = Inr []"

text \<open>
  \<^verbatim>\<open>messages.flatMap(callback)\<close>: the callback's arrays, joined in the order of the
  messages; an exception in the callback ends the whole call.
\<close>

fun mapMessages :: "base_message list \<Rightarrow> error + composer_message list" where
  "mapMessages [] = Inr []"
| "mapMessages (message # messages) =
     (case mapMessage message of
        Inl e \<Rightarrow> Inl e
      | Inr out \<Rightarrow>
          (case mapMessages messages of
             Inl e \<Rightarrow> Inl e
           | Inr rest \<Rightarrow> Inr (out @ rest)))"

subsection \<open>transformState\<close>

text \<open>
  Modelled from the spec: the type \<^verbatim>\<open>GraphStateAnnotation\<close> (imported from the composer's
  index) and the type \<^verbatim>\<open>ComposerState\<close> are not among the sources; the fields are the ones
  \<^verbatim>\<open>transformState\<close> reads and writes. \<^verbatim>\<open>threadId\<close> is declared a \<^verbatim>\<open>string\<close>; the types are
  gone at run time, and a caller that has no thread passes \<^verbatim>\<open>undefined\<close>, here \<open>None\<close>.
\<close>

record graph_state =
  messages :: "base_message list"
  title :: "string option"
  createdAt :: "nat option"
  parentThreadId :: "string option"

record composer_state =
  cs_messages :: "composer_message list"
  cs_threadId :: "string option"
  cs_canResume :: "bool option"
  cs_title :: "string option"
  cs_createdAt :: "nat option"
  cs_parentThreadId :: "string option"

text \<open>
  The function is \<^verbatim>\<open>async\<close>: what it throws rejects the promise it returns (\<open>Inl\<close>), what
  it returns fulfils it (\<open>Inr\<close>). The parameter \<^verbatim>\<open>workspace\<close> is not used.
\<close>

definition transformState ::
  "'a graph_state_scheme \<Rightarrow> string option \<Rightarrow> string \<Rightarrow> bool option \<Rightarrow> error + composer_state" where
  "transformState state threadId workspace canResume =
     (case mapMessages (messages state) of
        Inl e \<Rightarrow> Inl e
      | Inr msgs \<Rightarrow>
          Inr \<lparr>cs_messages = msgs,
               cs_threadId = threadId,
               cs_canResume = canResume,
               cs_title = title state,
               cs_createdAt = createdAt state,
               cs_parentThreadId = parentThreadId state\<rparr>)"

subsection \<open>The spec's words, for comparison\<close>

text \<open>
  The spec's "last text segment" of a content list: the text of the last part of type
  text, if there is one. (The transformer reads the last part instead, whatever its type.)
\<close>

definition spec_last_text :: "content_part list \<Rightarrow> string option" where
  "spec_last_text cs = (case rev (filter is_text cs) of [] \<Rightarrow> None | c # _ \<Rightarrow> part_text c)"

text \<open>
  The spec's image payload format, \<^verbatim>\<open>data:<mime>;base64,<payload>\<close>. The payload is kept
  in its base64 text, which stands for the bytes.
\<close>

definition spec_data_url :: "string \<Rightarrow> string \<Rightarrow> string" where
  "spec_data_url mime payload = ''data:'' @ mime @ '';base64,'' @ payload"

text \<open>
  The spec's round trip: encoding the attached pair (payload, MIME extension) again.
\<close>

definition spec_reencode :: "image \<Rightarrow> string option" where
  "spec_reencode img = map_option (spec_data_url (ext img)) (data img)"

section \<open>Properties\<close>

subsection \<open>Auxiliary facts\<close>

lemma push_text_parts_eq:
  "push_text_parts mid cs results = results @ [AssistantMessage mid t. TextPart t \<leftarrow> cs]"
  by (induction mid cs results rule: push_text_parts.induct) simp_all

lemma push_tool_calls_eq:
  "push_tool_calls mid kw tcs results =
     results @ map (\<lambda>toolCall. ToolMessage mid (Some (tc_name toolCall)) (tc_id toolCall)
                       (Args (tc_args toolCall)) Start kw) tcs"
  by (induction tcs arbitrary: results) simp_all

lemma mapMessage_chunk_closed:
  "mapMessage (AIMessageChunk message tool_calls) =
     Inr ((case content message of
             StringContent s \<Rightarrow> [AssistantMessage (msg_id message) s]
           | ArrayContent parts \<Rightarrow> [AssistantMessage (msg_id message) t. TextPart t \<leftarrow> parts])
          @ map (\<lambda>toolCall. ToolMessage (msg_id message) (Some (tc_name toolCall)) (tc_id toolCall)
                   (Args (tc_args toolCall)) Start (additional_kwargs message))
              (case tool_calls of None \<Rightarrow> [] | Some tcs \<Rightarrow> tcs))"
  by (simp add: Let_def push_text_parts_eq push_tool_calls_eq
           split: message_content.split option.split)

lemma find_first:
  "\<forall>c\<in>set pre. \<not> P c \<Longrightarrow> P x \<Longrightarrow> find P (pre @ x # post) = Some x"
  by (induction pre) simp_all

lemma last_index: "cs \<noteq> [] \<Longrightarrow> cs ! (length cs - Suc 0) = last cs"
  by (simp add: last_conv_nth)

lemma mapMessage_human_array:
  assumes "\<not> truthy (get_prop (additional_kwargs message) ''temp'')"
    and "content message = ArrayContent cs"
    and "cs \<noteq> []"
  shows "mapMessage (HumanMessage message) =
           Inr [UserMessage (msg_id message) (part_text (last cs))
                  (case find is_image_url cs of
                     Some (ImageUrlPart iu) \<Rightarrow> Some \<lparr>data = image_url_url iu, ext = ''image/jpeg''\<rparr>
                   | _ \<Rightarrow> None)]"
  using assms by (simp add: Let_def last_index)

lemma mapMessage_human_image:
  assumes "\<not> truthy (get_prop (additional_kwargs message) ''temp'')"
    and "content message = ArrayContent (pre @ ImageUrlPart iu # post)"
    and "\<forall>c\<in>set pre. \<not> is_image_url c"
  shows "mapMessage (HumanMessage message) =
           Inr [UserMessage (msg_id message) (part_text (last (ImageUrlPart iu # post)))
                  (Some \<lparr>data = image_url_url iu, ext = ''image/jpeg''\<rparr>)]"
proof -
  have f: "find is_image_url (pre @ ImageUrlPart iu # post) = Some (ImageUrlPart iu)"
    using assms(3) by (simp add: find_first)
  have l: "last (pre @ ImageUrlPart iu # post) = last (ImageUrlPart iu # post)"
    by simp
  have "pre @ ImageUrlPart iu # post \<noteq> []"
    by simp
  from mapMessage_human_array [OF assms(1,2) this] show ?thesis
    unfolding f l by simp
qed


lemma spec_data_url_longer: "spec_data_url mime' (spec_data_url mime payload) \<noteq> spec_data_url mime payload"
proof
  assume "spec_data_url mime' (spec_data_url mime payload) = spec_data_url mime payload"
  then have "length (spec_data_url mime' (spec_data_url mime payload)) = length (spec_data_url mime payload)"
    by simp
  then show False by (simp add: spec_data_url_def)
qed

lemma mapMessages_append:
  "mapMessages (xs @ ys) =
     (case mapMessages xs of
        Inl e \<Rightarrow> Inl e
      | Inr a \<Rightarrow> (case mapMessages ys of Inl e \<Rightarrow> Inl e | Inr b \<Rightarrow> Inr (a @ b)))"
  by (induction xs) (simp_all split: sum.split)

lemma mapMessages_Inr_iff:
  "mapMessages ms = Inr out \<longleftrightarrow> (\<exists>outs. map mapMessage ms = map Inr outs \<and> out = concat outs)"
proof (induction ms arbitrary: out)
  case Nil
  show ?case by auto
next
  case (Cons m ms)
  show ?case
  proof
    assume "mapMessages (m # ms) = Inr out"
    then obtain o1 rest where o1: "mapMessage m = Inr o1" and r: "mapMessages ms = Inr rest"
      and out: "out = o1 @ rest"
      by (auto split: sum.splits)
    from r Cons.IH obtain outs where "map mapMessage ms = map Inr outs" "rest = concat outs"
      by blast
    with o1 out have "map mapMessage (m # ms) = map Inr (o1 # outs) \<and> out = concat (o1 # outs)"
      by simp
    then show "\<exists>outs. map mapMessage (m # ms) = map Inr outs \<and> out = concat outs" by blast
  next
    assume "\<exists>outs. map mapMessage (m # ms) = map Inr outs \<and> out = concat outs"
    then obtain outs where m: "map mapMessage (m # ms) = map Inr outs" and out: "out = concat outs"
      by blast
    then obtain o1 os where outs: "outs = o1 # os" by (cases outs) auto
    with m have o1: "mapMessage m = Inr o1" and os: "map mapMessage ms = map Inr os" by auto
    from os Cons.IH have "mapMessages ms = Inr (concat os)" by blast
    with o1 out outs show "mapMessages (m # ms) = Inr out" by simp
  qed
qed

lemma transformState_Inr:
  "transformState state threadId workspace canResume = Inr snap \<Longrightarrow>
     mapMessages (messages state) = Inr (cs_messages snap)"
  by (auto simp: transformState_def split: sum.splits)

text \<open>
  A tool call of an AI chunk and, later in the history, the tool's message with the call's
  id: the output is the outputs of the five stretches of the history, in their order.
\<close>

lemma mapMessages_pair:
  assumes "mapMessages (pre @ AIMessageChunk ai (Some tcs) # mid
                          @ LangChainToolMessage tm name tcid # post) = Inr out"
    and "tc \<in> set tcs" and "tc_id tc = Some tcid"
  shows "\<exists>P X Y M Q.
           mapMessages pre = Inr P \<and>
           mapMessage (AIMessageChunk ai (Some tcs)) =
             Inr (X @ ToolMessage (msg_id ai) (Some (tc_name tc)) (Some tcid) (Args (tc_args tc))
                        Start (additional_kwargs ai) # Y) \<and>
           mapMessages mid = Inr M \<and>
           mapMessages post = Inr Q \<and>
           out = P @ X @ ToolMessage (msg_id ai) (Some (tc_name tc)) (Some tcid) (Args (tc_args tc))
                           Start (additional_kwargs ai) # Y
                   @ M @ ToolMessage (msg_id tm) name (Some tcid) (Result (content tm)) End
                           (additional_kwargs tm) # Q"
proof -
  let ?start = "\<lambda>toolCall. ToolMessage (msg_id ai) (Some (tc_name toolCall)) (tc_id toolCall)
                   (Args (tc_args toolCall)) Start (additional_kwargs ai)"
  let ?end = "ToolMessage (msg_id tm) name (Some tcid) (Result (content tm)) End (additional_kwargs tm)"
  obtain T where T: "mapMessage (AIMessageChunk ai (Some tcs)) = Inr (T @ map ?start tcs)"
    using mapMessage_chunk_closed [of ai "Some tcs"] by simp
  from assms(2) obtain t1 t2 where tcs: "tcs = t1 @ tc # t2" by (auto dest: split_list)
  have ai: "mapMessage (AIMessageChunk ai (Some tcs)) =
              Inr ((T @ map ?start t1) @ ?start tc # map ?start t2)"
    using T tcs by simp
  from assms(1) obtain P R where P: "mapMessages pre = Inr P"
    and R: "mapMessages (AIMessageChunk ai (Some tcs) # mid
                           @ LangChainToolMessage tm name tcid # post) = Inr R"
    and out: "out = P @ R"
    by (auto simp: mapMessages_append split: sum.splits)
  from R ai obtain R' where R': "mapMessages (mid @ LangChainToolMessage tm name tcid # post) = Inr R'"
    and Req: "R = ((T @ map ?start t1) @ ?start tc # map ?start t2) @ R'"
    by (auto split: sum.splits)
  from R' obtain M Q where M: "mapMessages mid = Inr M" and Q: "mapMessages post = Inr Q"
    and R'eq: "R' = M @ ?end # Q"
    by (auto simp: mapMessages_append split: sum.splits)
  have "out = P @ (T @ map ?start t1) @ ?start tc # map ?start t2 @ M @ ?end # Q"
    using out Req R'eq by simp
  with P ai M Q assms(3) show ?thesis by (metis (no_types, lifting))
qed

subsection \<open>Messages of no known class\<close>

text \<open>
  C9. A raw message that is neither a human message, nor an AI message chunk, nor a tool
  message contributes no composer message, and the adapter does not fail on it.
\<close>

theorem mapMessage_other_empty: "mapMessage (OtherMessage message) = Inr []"
  by simp

subsection \<open>Transient human messages\<close>

text \<open>
  C8. A human message whose \<^verbatim>\<open>additional_kwargs.temp\<close> is truthy contributes no composer
  message.
\<close>

theorem mapMessage_temp_empty:
  "truthy (get_prop (additional_kwargs message) ''temp'') \<Longrightarrow>
     mapMessage (HumanMessage message) = Inr []"
  by simp

theorem mapMessage_temp_empty_witness:
  "truthy (get_prop [(''temp'', JBool True)] ''temp'') \<and>
   mapMessage (HumanMessage \<lparr>msg_id = Some ''h1'', content = ArrayContent [TextPart ''placeholder''],
                 additional_kwargs = [(''temp'', JBool True)]\<rparr>) = Inr []"
  using mapMessage_temp_empty
          [of "\<lparr>msg_id = Some ''h1'', content = ArrayContent [TextPart ''placeholder''],
                additional_kwargs = [(''temp'', JBool True)]\<rparr>"]
  by (simp add: get_prop_def)

subsection \<open>Tool results\<close>

text \<open>
  C5. A tool message gives exactly one ToolMessage, of phase end, with the name and the
  tool call id of the tool message, and with its content where a start message has the
  arguments; a history of that one message gives that one composer message.
\<close>

theorem mapMessage_tool_result:
  "mapMessage (LangChainToolMessage message name tool_call_id) =
     Inr [ToolMessage (msg_id message) name (Some tool_call_id)
            (Result (content message)) End (additional_kwargs message)]
   \<and> mapMessages [LangChainToolMessage message name tool_call_id] =
     Inr [ToolMessage (msg_id message) name (Some tool_call_id)
            (Result (content message)) End (additional_kwargs message)]"
  by simp

subsection \<open>AI message chunks\<close>

text \<open>
  C4. An AI message chunk with a string content gives one AssistantMessage with that
  string; with an array content it gives one AssistantMessage for each part of type text,
  in the order of the parts, and nothing for the other parts. After them comes one
  ToolMessage of phase start for each tool call of the chunk, in their order, with the
  call's name, id and arguments and the chunk's \<^verbatim>\<open>additional_kwargs\<close>.
\<close>

theorem mapMessage_assistant:
  "mapMessage (AIMessageChunk message tool_calls) =
     Inr ((case content message of
             StringContent s \<Rightarrow> [AssistantMessage (msg_id message) s]
           | ArrayContent parts \<Rightarrow> [AssistantMessage (msg_id message) t. TextPart t \<leftarrow> parts])
          @ [ToolMessage (msg_id message) (Some (tc_name toolCall)) (tc_id toolCall)
               (Args (tc_args toolCall)) Start (additional_kwargs message).
             toolCall \<leftarrow> (case tool_calls of None \<Rightarrow> [] | Some tcs \<Rightarrow> tcs)])"
  by (subst mapMessage_chunk_closed) simp

text \<open>
  The spec's examples: the content \<^verbatim>\<open>"Hello"\<close>; the parts A and B (with a part of
  another type between them) and the tool call \<^verbatim>\<open>search\<close> of id \<^verbatim>\<open>tc1\<close>.
\<close>

theorem mapMessage_assistant_witness:
  "mapMessage (AIMessageChunk \<lparr>msg_id = Some ''a0'', content = StringContent ''Hello'',
                 additional_kwargs = []\<rparr> (Some []))
     = Inr [AssistantMessage (Some ''a0'') ''Hello'']
   \<and> mapMessage (AIMessageChunk
        \<lparr>msg_id = Some ''a1'',
         content = ArrayContent [TextPart ''A'', OtherPart ''tool_use'' None, TextPart ''B''],
         additional_kwargs = [(''model'', JStr ''m'')]\<rparr>
        (Some [\<lparr>tc_name = ''search'', tc_id = Some ''tc1'', tc_args = [(''query'', JStr ''foo'')]\<rparr>]))
     = Inr [AssistantMessage (Some ''a1'') ''A'', AssistantMessage (Some ''a1'') ''B'',
            ToolMessage (Some ''a1'') (Some ''search'') (Some ''tc1'')
              (Args [(''query'', JStr ''foo'')]) Start [(''model'', JStr ''m'')]]"
  using mapMessage_assistant
          [of "\<lparr>msg_id = Some ''a0'', content = StringContent ''Hello'', additional_kwargs = []\<rparr>"
              "Some []"]
        mapMessage_assistant
          [of "\<lparr>msg_id = Some ''a1'',
                content = ArrayContent [TextPart ''A'', OtherPart ''tool_use'' None, TextPart ''B''],
                additional_kwargs = [(''model'', JStr ''m'')]\<rparr>"
              "Some [\<lparr>tc_name = ''search'', tc_id = Some ''tc1'',
                      tc_args = [(''query'', JStr ''foo'')]\<rparr>]"]
  by simp

subsection \<open>Human messages\<close>



text \<open>
  A part of another type that has a text, after a text part: the text of the UserMessage
  is that part's, not the text part's.
\<close>

lemma mapMessage_user_file_part_last:
  "mapMessage (HumanMessage \<lparr>msg_id = Some ''h1'',
        content = ArrayContent [TextPart ''summarise'', OtherPart ''file'' (Some ''doc body'')],
        additional_kwargs = []\<rparr>)
      = Inr [UserMessage (Some ''h1'') (Some ''doc body'') None]
   \<and> spec_last_text [TextPart ''summarise'', OtherPart ''file'' (Some ''doc body'')]
       = Some ''summarise''"
  by (simp add: get_prop_def spec_last_text_def)


subsection \<open>The image of a human message\<close>

text \<open>
  C10, as the code has it. A human message that is not \<^verbatim>\<open>temp\<close> and whose content array
  has a part of type \<^verbatim>\<open>image_url\<close> gives a UserMessage with an image: its \<^verbatim>\<open>ext\<close> is the
  constant \<^verbatim>\<open>image/jpeg\<close>, whatever the URL declares, and its \<^verbatim>\<open>data\<close> is the \<^verbatim>\<open>url\<close>
  property of the \<^verbatim>\<open>image_url\<close> of the first such part: the URL string, as it is, when
  \<^verbatim>\<open>image_url\<close> is an object with a \<^verbatim>\<open>url\<close>, and undefined when \<^verbatim>\<open>image_url\<close> is itself
  the string.
\<close>

theorem mapMessage_user_image:
  assumes "\<not> truthy (get_prop (additional_kwargs message) ''temp'')"
    and "content message = ArrayContent (pre @ ImageUrlPart iu # post)"
    and "\<forall>c\<in>set pre. \<not> is_image_url c"
  shows "mapMessage (HumanMessage message) =
           Inr [UserMessage (msg_id message) (part_text (last (ImageUrlPart iu # post)))
                  (Some \<lparr>data = (case iu of UrlObject u \<Rightarrow> Some u | UrlString s \<Rightarrow> None),
                         ext = ''image/jpeg''\<rparr>)]"
  using mapMessage_human_image [OF assms] by (cases iu) simp_all

text \<open>A PNG and a GIF after a text part: the PNG's URL is the data, the extension is JPEG's.\<close>

theorem mapMessage_user_image_witness:
  "\<not> truthy (get_prop [] ''temp'') \<and>
   \<not> is_image_url (TextPart ''see'') \<and>
   mapMessage (HumanMessage \<lparr>msg_id = Some ''h1'',
       content = ArrayContent [TextPart ''see'',
                               ImageUrlPart (UrlObject ''data:image/png;base64,iVBORw0KGgo=''),
                               ImageUrlPart (UrlObject ''data:image/gif;base64,R0lGODlh''),
                               TextPart ''what is this?''],
       additional_kwargs = []\<rparr>)
     = Inr [UserMessage (Some ''h1'') (Some ''what is this?'')
              (Some \<lparr>data = Some ''data:image/png;base64,iVBORw0KGgo='', ext = ''image/jpeg''\<rparr>)]"
  using mapMessage_user_image
          [of "\<lparr>msg_id = Some ''h1'',
                content = ArrayContent [TextPart ''see'',
                               ImageUrlPart (UrlObject ''data:image/png;base64,iVBORw0KGgo=''),
                               ImageUrlPart (UrlObject ''data:image/gif;base64,R0lGODlh''),
                               TextPart ''what is this?''],
                additional_kwargs = []\<rparr>"
              "[TextPart ''see'']" "UrlObject ''data:image/png;base64,iVBORw0KGgo=''"
              "[ImageUrlPart (UrlObject ''data:image/gif;base64,R0lGODlh''),
                TextPart ''what is this?'']"]
  by (simp add: get_prop_def)

text \<open>
  C10 as stated fails for an image part whose \<^verbatim>\<open>image_url\<close> is the URL string itself:
  the data of the image is undefined, not the URL.
\<close>

theorem mapMessage_user_image_string_counterexample:
  "mapMessage (HumanMessage \<lparr>msg_id = Some ''h1'',
       content = ArrayContent [ImageUrlPart (UrlString ''data:image/png;base64,iVBORw0KGgo=''),
                               TextPart ''what is this?''],
       additional_kwargs = []\<rparr>)
     = Inr [UserMessage (Some ''h1'') (Some ''what is this?'')
              (Some \<lparr>data = None, ext = ''image/jpeg''\<rparr>)]"
  by (simp add: get_prop_def)

text \<open>
  C2, as the code has it. The transformer decodes nothing. When the first image part of a
  human message (not \<^verbatim>\<open>temp\<close>) has, as the \<^verbatim>\<open>url\<close> of its \<^verbatim>\<open>image_url\<close>, the data URL of
  a MIME type and a payload, the image of the UserMessage has that URL itself as its data
  and \<^verbatim>\<open>image/jpeg\<close> as its extension, whatever the MIME type is. Encoding this pair
  again gives the data URL of \<^verbatim>\<open>image/jpeg\<close> and of the whole first URL, never the first
  URL.
\<close>

theorem mapMessage_keeps_data_url:
  assumes "\<not> truthy (get_prop (additional_kwargs message) ''temp'')"
    and "content message =
           ArrayContent (pre @ ImageUrlPart (UrlObject (spec_data_url mime payload)) # post)"
    and "\<forall>c\<in>set pre. \<not> is_image_url c"
  shows "\<exists>img.
           mapMessage (HumanMessage message) =
             Inr [UserMessage (msg_id message)
                    (part_text (last (ImageUrlPart (UrlObject (spec_data_url mime payload)) # post)))
                    (Some img)]
           \<and> data img = Some (spec_data_url mime payload)
           \<and> ext img = ''image/jpeg''
           \<and> spec_reencode img = Some (spec_data_url ''image/jpeg'' (spec_data_url mime payload))
           \<and> spec_reencode img \<noteq> Some (spec_data_url mime payload)"
proof -
  let ?img = "\<lparr>data = Some (spec_data_url mime payload), ext = ''image/jpeg''\<rparr>"
  have "mapMessage (HumanMessage message) =
             Inr [UserMessage (msg_id message)
                    (part_text (last (ImageUrlPart (UrlObject (spec_data_url mime payload)) # post)))
                    (Some ?img)]"
    using mapMessage_human_image [OF assms] by simp
  moreover have "spec_reencode ?img = Some (spec_data_url ''image/jpeg'' (spec_data_url mime payload))"
    by (simp add: spec_reencode_def)
  moreover have "spec_reencode ?img \<noteq> Some (spec_data_url mime payload)"
    by (simp add: spec_reencode_def spec_data_url_longer)
  ultimately show ?thesis
    by (intro exI [of _ ?img]) simp
qed

theorem mapMessage_keeps_data_url_witness:
  "\<not> truthy (get_prop [] ''temp'') \<and>
   \<not> is_image_url (OtherPart ''document'' None) \<and>
   (\<exists>img. mapMessage (HumanMessage \<lparr>msg_id = Some ''h1'',
       content = ArrayContent [OtherPart ''document'' None,
                               ImageUrlPart (UrlObject (spec_data_url ''image/png'' ''iVBORw0KGgo='')),
                               TextPart ''what is this?''],
       additional_kwargs = []\<rparr>)
         = Inr [UserMessage (Some ''h1'') (Some ''what is this?'') (Some img)]
     \<and> data img = Some ''data:image/png;base64,iVBORw0KGgo=''
     \<and> ext img = ''image/jpeg''
     \<and> spec_reencode img = Some ''data:image/jpeg;base64,data:image/png;base64,iVBORw0KGgo=''
     \<and> spec_reencode img \<noteq> Some ''data:image/png;base64,iVBORw0KGgo='')"
  using mapMessage_keeps_data_url
          [of "\<lparr>msg_id = Some ''h1'',
                content = ArrayContent [OtherPart ''document'' None,
                               ImageUrlPart (UrlObject (spec_data_url ''image/png'' ''iVBORw0KGgo='')),
                               TextPart ''what is this?''],
                additional_kwargs = []\<rparr>"
              "[OtherPart ''document'' None]" "''image/png''" "''iVBORw0KGgo=''"
              "[TextPart ''what is this?'']"]
  by (simp add: get_prop_def spec_data_url_def)

text \<open>
  C2 as stated fails: for a PNG's data URL the image of the UserMessage has the whole URL
  as its data and \<^verbatim>\<open>image/jpeg\<close> as its extension, and encoding that pair again does not
  give the URL back.
\<close>

theorem mapMessage_image_decode_counterexample:
  "mapMessage (HumanMessage \<lparr>msg_id = Some ''h1'',
       content = ArrayContent [ImageUrlPart (UrlObject (spec_data_url ''image/png'' ''iVBORw0KGgo='')),
                               TextPart ''what is this?''],
       additional_kwargs = []\<rparr>)
     = Inr [UserMessage (Some ''h1'') (Some ''what is this?'')
              (Some \<lparr>data = Some ''data:image/png;base64,iVBORw0KGgo='', ext = ''image/jpeg''\<rparr>)]
   \<and> spec_reencode \<lparr>data = Some ''data:image/png;base64,iVBORw0KGgo='', ext = ''image/jpeg''\<rparr>
       = Some ''data:image/jpeg;base64,data:image/png;base64,iVBORw0KGgo=''
   \<and> spec_reencode \<lparr>data = Some ''data:image/png;base64,iVBORw0KGgo='', ext = ''image/jpeg''\<rparr>
       \<noteq> Some (spec_data_url ''image/png'' ''iVBORw0KGgo='')"
  by (simp add: get_prop_def spec_data_url_def spec_reencode_def)

subsection \<open>The assembled state\<close>

text \<open>
  When the callback throws: only on a human message that is not \<^verbatim>\<open>temp\<close> and whose
  content is a string or an empty array.
\<close>

lemma mapMessage_Inl_iff:
  "mapMessage m = Inl e \<longleftrightarrow>
     (\<exists>message. m = HumanMessage message \<and>
        \<not> truthy (get_prop (additional_kwargs message) ''temp'') \<and>
        (case content message of StringContent s \<Rightarrow> True | ArrayContent cs \<Rightarrow> cs = []))"
  by (cases m; cases e) (auto simp: Let_def split: message_content.splits)

text \<open>
  \<^verbatim>\<open>transformState\<close> returns a state exactly when the callback returns for every message
  of the history.
\<close>

lemma mapMessages_returns_iff:
  "(\<exists>out. mapMessages ms = Inr out) \<longleftrightarrow> (\<forall>m\<in>set ms. \<exists>out. mapMessage m = Inr out)"
  by (induction ms) (auto split: sum.splits)

lemma transformState_returns_iff:
  "(\<exists>snap. transformState state threadId workspace canResume = Inr snap) \<longleftrightarrow>
     (\<forall>m\<in>set (messages state). \<exists>out. mapMessage m = Inr out)"
  unfolding mapMessages_returns_iff [symmetric]
  by (auto simp: transformState_def split: sum.splits)

text \<open>
  C6. For every history, \<^verbatim>\<open>transformState\<close> returns a state exactly when the callback
  returns for every message of the history, and the state is then the one whose messages
  are the outputs of the callback for the messages of the history, joined in the order of
  the history, beside the metadata. Hence, for a tool call of an AI chunk and a tool message
  with the call's id later in the history, the start ToolMessage of the call comes before
  the end ToolMessage of the tool message: the messages of the state are the output for the
  history before the chunk, the chunk's output (the start message in it), the output for the
  history between the two, the end message, and the output for the rest.
\<close>

theorem transformState_order:
  "(\<forall>snap. transformState state threadId workspace canResume = Inr snap \<longleftrightarrow>
            (\<exists>outs. map mapMessage (messages state) = map Inr outs \<and>
               snap = \<lparr>cs_messages = concat outs, cs_threadId = threadId,
                       cs_canResume = canResume, cs_title = title state,
                       cs_createdAt = createdAt state,
                       cs_parentThreadId = parentThreadId state\<rparr>)) \<and>
   ((\<exists>snap. transformState state threadId workspace canResume = Inr snap) \<longleftrightarrow>
            (\<forall>m\<in>set (messages state). \<exists>out. mapMessage m = Inr out)) \<and>
   (\<forall>snap pre ai tcs mid tm name tcid post tc.
            transformState state threadId workspace canResume = Inr snap
            \<and> messages state = pre @ AIMessageChunk ai (Some tcs) # mid
                               @ LangChainToolMessage tm name tcid # post
            \<and> tc \<in> set tcs \<and> tc_id tc = Some tcid \<longrightarrow>
            (\<exists>P X Y M Q.
               mapMessages pre = Inr P \<and>
               mapMessage (AIMessageChunk ai (Some tcs)) =
                 Inr (X @ ToolMessage (msg_id ai) (Some (tc_name tc)) (Some tcid) (Args (tc_args tc))
                            Start (additional_kwargs ai) # Y) \<and>
               mapMessages mid = Inr M \<and>
               mapMessages post = Inr Q \<and>
               cs_messages snap =
                 P @ X @ ToolMessage (msg_id ai) (Some (tc_name tc)) (Some tcid) (Args (tc_args tc))
                            Start (additional_kwargs ai) # Y
                   @ M @ ToolMessage (msg_id tm) name (Some tcid) (Result (content tm)) End
                            (additional_kwargs tm) # Q))"
proof (intro conjI allI impI)
  fix snap
  show "transformState state threadId workspace canResume = Inr snap \<longleftrightarrow>
            (\<exists>outs. map mapMessage (messages state) = map Inr outs \<and>
               snap = \<lparr>cs_messages = concat outs, cs_threadId = threadId,
                       cs_canResume = canResume, cs_title = title state,
                       cs_createdAt = createdAt state,
                       cs_parentThreadId = parentThreadId state\<rparr>)"
  proof
    assume r: "transformState state threadId workspace canResume = Inr snap"
    then have "mapMessages (messages state) = Inr (cs_messages snap)"
      by (rule transformState_Inr)
    then obtain outs where o: "map mapMessage (messages state) = map Inr outs"
      and c: "cs_messages snap = concat outs"
      unfolding mapMessages_Inr_iff by blast
    from c have "mapMessages (messages state) = Inr (concat outs)"
      using \<open>mapMessages (messages state) = Inr (cs_messages snap)\<close> by simp
    with r have "snap = \<lparr>cs_messages = concat outs, cs_threadId = threadId,
                       cs_canResume = canResume, cs_title = title state,
                       cs_createdAt = createdAt state,
                       cs_parentThreadId = parentThreadId state\<rparr>"
      by (simp add: transformState_def)
    with o show "\<exists>outs. map mapMessage (messages state) = map Inr outs \<and>
               snap = \<lparr>cs_messages = concat outs, cs_threadId = threadId,
                       cs_canResume = canResume, cs_title = title state,
                       cs_createdAt = createdAt state,
                       cs_parentThreadId = parentThreadId state\<rparr>"
      by blast
  next
    assume "\<exists>outs. map mapMessage (messages state) = map Inr outs \<and>
               snap = \<lparr>cs_messages = concat outs, cs_threadId = threadId,
                       cs_canResume = canResume, cs_title = title state,
                       cs_createdAt = createdAt state,
                       cs_parentThreadId = parentThreadId state\<rparr>"
    then obtain outs where o: "map mapMessage (messages state) = map Inr outs"
      and s: "snap = \<lparr>cs_messages = concat outs, cs_threadId = threadId,
                       cs_canResume = canResume, cs_title = title state,
                       cs_createdAt = createdAt state,
                       cs_parentThreadId = parentThreadId state\<rparr>"
      by blast
    from o have "mapMessages (messages state) = Inr (concat outs)"
      unfolding mapMessages_Inr_iff by blast
    with s show "transformState state threadId workspace canResume = Inr snap"
      by (simp add: transformState_def)
  qed
next
  show "(\<exists>snap. transformState state threadId workspace canResume = Inr snap) \<longleftrightarrow>
            (\<forall>m\<in>set (messages state). \<exists>out. mapMessage m = Inr out)"
    by (rule transformState_returns_iff)
next
  fix snap pre ai tcs mid tm name tcid post tc
  assume h: "transformState state threadId workspace canResume = Inr snap
            \<and> messages state = pre @ AIMessageChunk ai (Some tcs) # mid
                               @ LangChainToolMessage tm name tcid # post
            \<and> tc \<in> set tcs \<and> tc_id tc = Some tcid"
  then have "mapMessages (messages state) = Inr (cs_messages snap)"
    by (blast intro: transformState_Inr)
  with h have "mapMessages (pre @ AIMessageChunk ai (Some tcs) # mid
                              @ LangChainToolMessage tm name tcid # post)
                 = Inr (cs_messages snap)" by simp
  from mapMessages_pair [OF this] h
  show "\<exists>P X Y M Q.
               mapMessages pre = Inr P \<and>
               mapMessage (AIMessageChunk ai (Some tcs)) =
                 Inr (X @ ToolMessage (msg_id ai) (Some (tc_name tc)) (Some tcid) (Args (tc_args tc))
                            Start (additional_kwargs ai) # Y) \<and>
               mapMessages mid = Inr M \<and>
               mapMessages post = Inr Q \<and>
               cs_messages snap =
                 P @ X @ ToolMessage (msg_id ai) (Some (tc_name tc)) (Some tcid) (Args (tc_args tc))
                            Start (additional_kwargs ai) # Y
                   @ M @ ToolMessage (msg_id tm) name (Some tcid) (Result (content tm)) End
                            (additional_kwargs tm) # Q"
    by blast
qed

text \<open>
  The spec's examples: the chunk with the parts A and B and the tool call \<^verbatim>\<open>search\<close> of id
  \<^verbatim>\<open>tc1\<close>, then the tool's message for \<^verbatim>\<open>tc1\<close>; and the empty history of a thread just
  branched.
\<close>

theorem transformState_order_witness:
  "transformState
     \<lparr>messages =
        [AIMessageChunk \<lparr>msg_id = Some ''a1'', content = ArrayContent [TextPart ''A'', TextPart ''B''],
                         additional_kwargs = []\<rparr>
           (Some [\<lparr>tc_name = ''search'', tc_id = Some ''tc1'', tc_args = [(''query'', JStr ''foo'')]\<rparr>]),
         LangChainToolMessage \<lparr>msg_id = Some ''r1'', content = StringContent ''{hits:3}'',
                               additional_kwargs = []\<rparr> (Some ''search'') ''tc1''],
      title = Some ''Search'', createdAt = Some 1700000000, parentThreadId = None\<rparr>
     (Some ''thread-1'') ''/workspace'' (Some True)
   = Inr \<lparr>cs_messages =
            [AssistantMessage (Some ''a1'') ''A'', AssistantMessage (Some ''a1'') ''B'',
             ToolMessage (Some ''a1'') (Some ''search'') (Some ''tc1'')
               (Args [(''query'', JStr ''foo'')]) Start [],
             ToolMessage (Some ''r1'') (Some ''search'') (Some ''tc1'')
               (Result (StringContent ''{hits:3}'')) End []],
          cs_threadId = Some ''thread-1'', cs_canResume = Some True, cs_title = Some ''Search'',
          cs_createdAt = Some 1700000000, cs_parentThreadId = None\<rparr>
   \<and> (\<exists>P X Y M Q.
        mapMessages [] = Inr P \<and> mapMessages [] = Inr M \<and> mapMessages [] = Inr Q \<and>
        [AssistantMessage (Some ''a1'') ''A'', AssistantMessage (Some ''a1'') ''B'',
         ToolMessage (Some ''a1'') (Some ''search'') (Some ''tc1'')
           (Args [(''query'', JStr ''foo'')]) Start [],
         ToolMessage (Some ''r1'') (Some ''search'') (Some ''tc1'')
           (Result (StringContent ''{hits:3}'')) End []]
        = P @ X @ ToolMessage (Some ''a1'') (Some ''search'') (Some ''tc1'')
                    (Args [(''query'', JStr ''foo'')]) Start [] # Y
            @ M @ ToolMessage (Some ''r1'') (Some ''search'') (Some ''tc1'')
                    (Result (StringContent ''{hits:3}'')) End [] # Q)
   \<and> transformState
       \<lparr>messages = [], title = Some ''Branch'', createdAt = Some 1700000001,
        parentThreadId = Some ''thread-1''\<rparr>
       (Some ''thread-2'') ''/workspace'' None
     = Inr \<lparr>cs_messages = [], cs_threadId = Some ''thread-2'', cs_canResume = None,
            cs_title = Some ''Branch'', cs_createdAt = Some 1700000001,
            cs_parentThreadId = Some ''thread-1''\<rparr>"
proof -
  let ?ai = "\<lparr>msg_id = Some ''a1'', content = ArrayContent [TextPart ''A'', TextPart ''B''],
              additional_kwargs = []\<rparr>"
  let ?tc = "\<lparr>tc_name = ''search'', tc_id = Some ''tc1'', tc_args = [(''query'', JStr ''foo'')]\<rparr>"
  let ?tm = "\<lparr>msg_id = Some ''r1'', content = StringContent ''{hits:3}'', additional_kwargs = []\<rparr>"
  let ?state = "\<lparr>messages = [AIMessageChunk ?ai (Some [?tc]),
                             LangChainToolMessage ?tm (Some ''search'') ''tc1''],
                 title = Some ''Search'', createdAt = Some 1700000000, parentThreadId = None\<rparr>"
  let ?outs = "[[AssistantMessage (Some ''a1'') ''A'', AssistantMessage (Some ''a1'') ''B'',
                 ToolMessage (Some ''a1'') (Some ''search'') (Some ''tc1'')
                   (Args [(''query'', JStr ''foo'')]) Start []],
                [ToolMessage (Some ''r1'') (Some ''search'') (Some ''tc1'')
                   (Result (StringContent ''{hits:3}'')) End []]]"
  let ?snap = "\<lparr>cs_messages = concat ?outs,
          cs_threadId = Some ''thread-1'', cs_canResume = Some True, cs_title = Some ''Search'',
          cs_createdAt = Some 1700000000, cs_parentThreadId = None\<rparr>"
  let ?empty = "\<lparr>messages = [], title = Some ''Branch'', createdAt = Some 1700000001,
                 parentThreadId = Some ''thread-1''\<rparr>"
  let ?esnap = "\<lparr>cs_messages = concat [], cs_threadId = Some ''thread-2'', cs_canResume = None,
                 cs_title = Some ''Branch'', cs_createdAt = Some 1700000001,
                 cs_parentThreadId = Some ''thread-1''\<rparr>"
  note full = transformState_order [of ?state "Some ''thread-1''" "''/workspace''" "Some True"]
  note efull = transformState_order [of ?empty "Some ''thread-2''" "''/workspace''" None]
  have "map mapMessage (messages ?state) = map Inr ?outs"
    by simp
  then have "\<exists>outs. map mapMessage (messages ?state) = map Inr outs \<and>
           ?snap = \<lparr>cs_messages = concat outs, cs_threadId = Some ''thread-1'',
                       cs_canResume = Some True, cs_title = title ?state,
                       cs_createdAt = createdAt ?state,
                       cs_parentThreadId = parentThreadId ?state\<rparr>"
    by (intro exI [of _ ?outs]) simp
  then have run: "transformState ?state (Some ''thread-1'') ''/workspace'' (Some True) = Inr ?snap"
    by (rule full [THEN conjunct1, rule_format, THEN iffD2])
  have "map mapMessage (messages ?empty) = map Inr []"
    by simp
  then have "\<exists>outs. map mapMessage (messages ?empty) = map Inr outs \<and>
           ?esnap = \<lparr>cs_messages = concat outs, cs_threadId = Some ''thread-2'',
                       cs_canResume = None, cs_title = title ?empty,
                       cs_createdAt = createdAt ?empty,
                       cs_parentThreadId = parentThreadId ?empty\<rparr>"
    by (intro exI [of _ "[]"]) simp
  then have erun: "transformState ?empty (Some ''thread-2'') ''/workspace'' None = Inr ?esnap"
    by (rule efull [THEN conjunct1, rule_format, THEN iffD2])
  have hist: "transformState ?state (Some ''thread-1'') ''/workspace'' (Some True) = Inr ?snap
              \<and> messages ?state = [] @ AIMessageChunk ?ai (Some [?tc]) # []
                                  @ LangChainToolMessage ?tm (Some ''search'') ''tc1'' # []
              \<and> ?tc \<in> set [?tc] \<and> tc_id ?tc = Some ''tc1''"
    using run by simp
  from full [THEN conjunct2, THEN conjunct2, rule_format, OF hist]
  have "\<exists>P X Y M Q.
        mapMessages [] = Inr P \<and> mapMessages [] = Inr M \<and> mapMessages [] = Inr Q \<and>
        cs_messages ?snap
        = P @ X @ ToolMessage (Some ''a1'') (Some ''search'') (Some ''tc1'')
                    (Args [(''query'', JStr ''foo'')]) Start [] # Y
            @ M @ ToolMessage (Some ''r1'') (Some ''search'') (Some ''tc1'')
                    (Result (StringContent ''{hits:3}'')) End [] # Q"
    by (simp del: mapMessage.simps mapMessages.simps) blast
  then show ?thesis using run erun by simp
qed

text \<open>
  C3, as the code has it. \<^verbatim>\<open>transformState\<close> makes no check of the session's context. It
  fails exactly when \<^verbatim>\<open>mapMessages\<close> fails on the history, with that TypeError; otherwise
  it returns a state with the messages \<^verbatim>\<open>mapMessages\<close> gives and with the thread id it
  was given, present or not.
\<close>

theorem transformState_no_context_check:
  "(case transformState state threadId workspace canResume of
      Inl e \<Rightarrow> mapMessages (messages state) = Inl e
    | Inr snap \<Rightarrow>
        mapMessages (messages state) = Inr (cs_messages snap) \<and> cs_threadId snap = threadId)"
  by (simp add: transformState_def split: sum.split)

text \<open>
  C3 as stated fails: with no thread id (\<^verbatim>\<open>undefined\<close>, or the empty string) and no other
  metadata, \<^verbatim>\<open>transformState\<close> returns a state.
\<close>

theorem transformState_missing_threadId_counterexample:
  "transformState
     \<lparr>messages = [HumanMessage \<lparr>msg_id = Some ''h1'', content = ArrayContent [TextPart ''hi''],
                                 additional_kwargs = []\<rparr>],
      title = None, createdAt = None, parentThreadId = None\<rparr>
     None ''/workspace'' None
   = Inr \<lparr>cs_messages = [UserMessage (Some ''h1'') (Some ''hi'') None],
          cs_threadId = None, cs_canResume = None, cs_title = None,
          cs_createdAt = None, cs_parentThreadId = None\<rparr>
   \<and> transformState
     \<lparr>messages = [HumanMessage \<lparr>msg_id = Some ''h1'', content = ArrayContent [TextPart ''hi''],
                                 additional_kwargs = []\<rparr>],
      title = None, createdAt = None, parentThreadId = None\<rparr>
     (Some []) ''/workspace'' None
   = Inr \<lparr>cs_messages = [UserMessage (Some ''h1'') (Some ''hi'') None],
          cs_threadId = Some [], cs_canResume = None, cs_title = None,
          cs_createdAt = None, cs_parentThreadId = None\<rparr>"
  by (simp add: transformState_def get_prop_def)

end
